theory Spec2Isabelle
  imports Main
begin

section \<open>Field-name resolution of \<open>openfoam-ensemble.py\<close>\<close>

text \<open>
  The script \<open>tutorials/functionObject/openfoam-ensemble.py\<close> defines one function,
  \<open>get_field_name\<close>, and a top-level loop that calls it once for every ensemble member.
  The function talks to two libraries: a SmartRedis client (a mutable object in front of
  a store) and a Jinja2 environment created as \<open>jj.Environment()\<close>. Both are modelled
  below as far as the function uses them; everything the function itself does is
  translated line by line.
\<close>

subsection \<open>Python values and \<open>str()\<close>\<close>

text \<open>
  The values handed to the resolver for \<open>processor\<close>, \<open>timestep\<close> and \<open>field_name\<close>:
  \<open>None\<close>, an integer (unbounded in Python) or a string.
\<close>

datatype pyval = PyNone | PyInt int | PyStr string

definition digit_char :: "nat \<Rightarrow> char" where
  "digit_char d = ''0123456789'' ! d"

function str_of_nat :: "nat \<Rightarrow> string" where
  "str_of_nat n = (if n < 10 then [digit_char n] else str_of_nat (n div 10) @ [digit_char (n mod 10)])"
  by pat_completeness auto
termination
  by (relation "measure id") auto

declare str_of_nat.simps [simp del]

definition str_of_int :: "int \<Rightarrow> string" where
  "str_of_int i = (if i < 0 then CHR ''-'' # str_of_nat (nat (- i)) else str_of_nat (nat i))"

text \<open>Python's \<open>str(v)\<close>.\<close>

fun py_str :: "pyval \<Rightarrow> string" where
  "py_str PyNone = ''None''"
| "py_str (PyInt i) = str_of_int i"
| "py_str (PyStr s) = s"

definition str_of_bool :: "bool \<Rightarrow> string" where
  "str_of_bool b = (if b then ''True'' else ''False'')"

subsection \<open>The templating engine: a fragment of Jinja2 with its default settings\<close>

text \<open>
  Jinja2 is a library the script imports; the model follows the library's documented
  behaviour. \<open>env = jj.Environment()\<close> (line 17) takes every default of Jinja2: the delimiters
  \<open>{{\<close> \<open>}}\<close>, \<open>{%\<close> \<open>%}\<close>, \<open>{#\<close> \<open>#}\<close>, no autoescaping, and \<open>undefined = Undefined\<close>, the
  lenient undefined type whose \<open>str()\<close> is the empty string.

  The fragment modelled here: a template is literal text interleaved with
  \<open>{{ identifier }}\<close> expressions, the identifier an ASCII name with optional blanks
  around it. A template that uses anything else of Jinja2 (statements, comments,
  filters, operators, literals, whitespace control, line breaks), an identifier that
  Jinja2 reads as a literal or keyword, the special name \<open>self\<close>, or a name that a
  default environment defines globally, is outside the fragment: \<open>from_string\<close> then
  returns \<open>None\<close>, and nothing is said about what Jinja2 does with it.
\<close>

datatype tnode = Data string | Var string

type_synonym template = "tnode list"

definition blank :: "char \<Rightarrow> bool" where
  "blank c = (c = CHR '' '' \<or> c = CHR 0x09)"

definition ident_start :: "char \<Rightarrow> bool" where
  "ident_start c = (c \<in> set ''abcdefghijklmnopqrstuvwxyzABCDEFGHIJKLMNOPQRSTUVWXYZ_'')"

definition ident_char :: "char \<Rightarrow> bool" where
  "ident_char c = (ident_start c \<or> c \<in> set ''0123456789'')"

text \<open>
  Names that are not plain context lookups in a default environment: the literals, the
  expression keywords, \<open>self\<close>, and the default globals.
\<close>

definition not_plain_names :: "string list" where
  "not_plain_names =
     [''true'', ''false'', ''none'', ''True'', ''False'', ''None'',
      ''not'', ''and'', ''or'', ''if'', ''else'', ''in'', ''is'', ''self'',
      ''range'', ''dict'', ''lipsum'', ''cycler'', ''joiner'', ''namespace'']"

definition strip_blanks :: "string \<Rightarrow> string" where
  "strip_blanks s = rev (dropWhile blank (rev (dropWhile blank s)))"

definition ident_of :: "string \<Rightarrow> string option" where
  "ident_of inner =
     (case strip_blanks inner of
        [] \<Rightarrow> None
      | c # cs \<Rightarrow>
          if ident_start c \<and> list_all ident_char cs \<and> c # cs \<notin> set not_plain_names
          then Some (c # cs) else None)"

text \<open>The text up to the first \<open>}}\<close>, and the text after it.\<close>

fun split_at_close :: "string \<Rightarrow> (string \<times> string) option" where
  "split_at_close (c # d # cs) =
     (if c = CHR ''}'' \<and> d = CHR ''}'' then Some ([], cs)
      else (case split_at_close (d # cs) of
              None \<Rightarrow> None
            | Some (inner, rest) \<Rightarrow> Some (c # inner, rest)))"
| "split_at_close cs = None"

definition cons_data :: "char \<Rightarrow> template \<Rightarrow> template" where
  "cons_data c t = (case t of Data s # r \<Rightarrow> Data (c # s) # r | _ \<Rightarrow> Data [c] # t)"

lemma split_at_close_shorter:
  "split_at_close cs = Some (inner, rest) \<Longrightarrow> length rest < length cs"
  by (induction cs arbitrary: inner rest rule: split_at_close.induct)
     (auto split: if_splits option.splits)

function lex :: "string \<Rightarrow> template option" where
  "lex [] = Some []"
| "lex [c] = Some [Data [c]]"
| "lex (c # d # cs) =
     (if c = CHR ''{'' \<and> d = CHR ''{'' then
        (case split_at_close cs of
           None \<Rightarrow> None
         | Some (inner, rest) \<Rightarrow>
             (case ident_of inner of
                None \<Rightarrow> None
              | Some v \<Rightarrow> map_option (Cons (Var v)) (lex rest)))
      else if c = CHR ''{'' \<and> (d = CHR ''%'' \<or> d = CHR ''#'') then None
      else map_option (cons_data c) (lex (d # cs)))"
  by pat_completeness auto
termination
  by (relation "measure length") (auto dest: split_at_close_shorter)

text \<open>\<open>env.from_string(source)\<close>, on the fragment.\<close>

definition from_string :: "string \<Rightarrow> template option" where
  "from_string source =
     (if CHR 0x0A \<in> set source \<or> CHR 0x0D \<in> set source then None else lex source)"

text \<open>
  \<open>template.render(**kwargs)\<close>: a name found among the keyword arguments prints as
  \<open>str\<close> of its value; a name not found is \<open>Undefined\<close>, which prints as the empty
  string.
\<close>

type_synonym kwargs = "(string \<times> pyval) list"

fun render_node :: "kwargs \<Rightarrow> tnode \<Rightarrow> string" where
  "render_node kw (Data s) = s"
| "render_node kw (Var v) = (case map_of kw v of None \<Rightarrow> [] | Some x \<Rightarrow> py_str x)"

definition render :: "template \<Rightarrow> kwargs \<Rightarrow> string" where
  "render t kw = concat (map (render_node kw) t)"

subsection \<open>Templates whose value is drawn at random\<close>

text \<open>
  A default environment also offers expressions whose value is not a function of the
  keyword arguments. One of them is modelled, as a second kind of template: literal text
  around one expression \<open>{{ range(N)|random }}\<close>. Here \<open>range\<close> is a global of the default
  environment and \<open>random\<close> one of its filters, which returns \<open>random.choice\<close> of the
  sequence: a number below \<open>N\<close> taken from the hidden state of Python's \<open>random\<close> module.
  \<open>N\<close> is a decimal literal of one to nine digits, not zero and without a leading zero;
  blanks are allowed only next to the braces.

  The hidden state enters the model as an argument \<open>rnd\<close>: \<open>rnd i\<close> is the number the
  \<open>random\<close> module yields the \<open>i\<close>-th time it is asked during a call (the model reduces it
  below \<open>N\<close>).
\<close>

type_synonym rng = "nat \<Rightarrow> nat"

definition digit_value :: "char \<Rightarrow> nat option" where
  "digit_value c =
     map_of [(CHR ''0'', 0), (CHR ''1'', 1), (CHR ''2'', 2), (CHR ''3'', 3), (CHR ''4'', 4),
             (CHR ''5'', 5), (CHR ''6'', 6), (CHR ''7'', 7), (CHR ''8'', 8), (CHR ''9'', 9)] c"

fun nat_of_digits :: "nat \<Rightarrow> string \<Rightarrow> nat option" where
  "nat_of_digits acc [] = Some acc"
| "nat_of_digits acc (c # cs) =
     (case digit_value c of None \<Rightarrow> None | Some d \<Rightarrow> nat_of_digits (10 * acc + d) cs)"

definition decimal_literal :: "string \<Rightarrow> nat option" where
  "decimal_literal s =
     (if s = [] \<or> 9 < length s \<or> hd s = CHR ''0'' then None else nat_of_digits 0 s)"

definition random_choice_of :: "string \<Rightarrow> nat option" where
  "random_choice_of inner =
     (let s = strip_blanks inner
      in if 14 \<le> length s \<and> take 6 s = ''range('' \<and> drop (length s - 8) s = '')|random''
         then decimal_literal (take (length s - 14) (drop 6 s)) else None)"

text \<open>The text up to the first \<open>{{\<close>, and the text after it.\<close>

fun split_at_open :: "string \<Rightarrow> (string \<times> string) option" where
  "split_at_open (c # d # cs) =
     (if c = CHR ''{'' \<and> d = CHR ''{'' then Some ([], cs)
      else (case split_at_open (d # cs) of
              None \<Rightarrow> None
            | Some (pre, rest) \<Rightarrow> Some (c # pre, rest)))"
| "split_at_open cs = None"

text \<open>Text that the engine copies as it is: a plain template without any expression.\<close>

definition literal_text :: "string \<Rightarrow> bool" where
  "literal_text s = (from_string s = Some (if s = [] then [] else [Data s]))"

definition from_string_random :: "string \<Rightarrow> (string \<times> nat \<times> string) option" where
  "from_string_random source =
     (if CHR 0x0A \<in> set source \<or> CHR 0x0D \<in> set source then None
      else (case split_at_open source of
              None \<Rightarrow> None
            | Some (pre, rest) \<Rightarrow>
                (case split_at_close rest of
                   None \<Rightarrow> None
                 | Some (inner, post) \<Rightarrow>
                     (case random_choice_of inner of
                        None \<Rightarrow> None
                      | Some n \<Rightarrow>
                          if literal_text pre \<and> literal_text post
                          then Some (pre, n, post) else None))))"

text \<open>
  \<open>env.from_string(source)\<close> on both kinds of template, and \<open>render\<close> on the result.
  Rendering returns the text and the number of draws made so far, counted from \<open>i\<close>.
\<close>

datatype compiled = Plain template | RandomChoice string nat string

definition env_from_string :: "string \<Rightarrow> compiled option" where
  "env_from_string source =
     (case from_string source of
        Some t \<Rightarrow> Some (Plain t)
      | None \<Rightarrow>
          (case from_string_random source of
             Some (pre, n, post) \<Rightarrow> Some (RandomChoice pre n post)
           | None \<Rightarrow> None))"

fun render_compiled :: "compiled \<Rightarrow> kwargs \<Rightarrow> rng \<Rightarrow> nat \<Rightarrow> string \<times> nat" where
  "render_compiled (Plain t) kw rnd i = (render t kw, i)"
| "render_compiled (RandomChoice pre n post) kw rnd i =
     (pre @ str_of_nat (rnd i mod n) @ post, Suc i)"

subsection \<open>The store client\<close>

text \<open>
  Modelled from the spec: the store client (the SmartRedis \<open>Client\<close> class) is a library
  the script imports, so its methods are modelled as the interface the specification
  describes. The client is a mutable object with a data source and four ensemble-prefix
  toggles; \<open>set_data_source\<close> and the four \<open>use_*_ensemble_prefix\<close> calls update this
  addressing state, \<open>poll_dataset\<close> and \<open>tensor_exists\<close> return a boolean,
  \<open>get_dataset\<close> returns a dataset or raises. The two integers of \<open>poll_dataset\<close> are
  kept in the order the script passes them; the interface of the specification names
  them \<open>num_tries\<close> and \<open>interval_ms\<close>, and the model gives them no meaning of its own.

  Every call is appended to \<open>calls\<close>, a history of the method calls made on the client,
  with the answers of the two boolean queries, so that properties about which calls
  are made, with which arguments and in which order, can be stated.
\<close>

datatype call =
    SetDataSource string
  | UseDatasetEnsemblePrefix bool
  | UseListEnsemblePrefix bool
  | UseModelEnsemblePrefix bool
  | UseTensorEnsemblePrefix bool
  | PollDataset string int int bool
  | GetDataset string
  | TensorExists string bool

record client =
  data_source :: string
  dataset_prefix :: bool
  list_prefix :: bool
  model_prefix :: bool
  tensor_prefix :: bool
  calls :: "call list"

text \<open>A dataset exposes named string-metadata fields, each a list of strings.\<close>

record dataset =
  meta_strings :: "string \<rightharpoonup> string list"

text \<open>
  The store behind the client is outside the script, and other processes write to it
  while the script runs. It is a parameter of the model: three answer functions that see
  the client's state at the moment of the call (its addressing state and its history,
  so an answer may differ from one call to the next).
\<close>

record store =
  poll_answer :: "client \<Rightarrow> string \<Rightarrow> int \<Rightarrow> int \<Rightarrow> bool"
  dataset_at :: "client \<Rightarrow> string \<Rightarrow> dataset option"
  tensor_at :: "client \<Rightarrow> string \<Rightarrow> bool"

text \<open>
  The exceptions a call can end in. \<open>TemplateOutsideFragment\<close> is not an exception of the
  program: it marks a call whose template neither kind of modelled template covers, and
  about which the model says nothing.
\<close>

datatype error =
    KeyError string
  | ValueError string
  | IndexError
  | MetaFieldMissing string
  | DatasetUnavailable string
  | TemplateOutsideFragment string

definition set_data_source :: "string \<Rightarrow> client \<Rightarrow> client" where
  "set_data_source s c = c\<lparr>data_source := s, calls := calls c @ [SetDataSource s]\<rparr>"

definition use_dataset_ensemble_prefix :: "bool \<Rightarrow> client \<Rightarrow> client" where
  "use_dataset_ensemble_prefix b c =
     c\<lparr>dataset_prefix := b, calls := calls c @ [UseDatasetEnsemblePrefix b]\<rparr>"

definition use_list_ensemble_prefix :: "bool \<Rightarrow> client \<Rightarrow> client" where
  "use_list_ensemble_prefix b c =
     c\<lparr>list_prefix := b, calls := calls c @ [UseListEnsemblePrefix b]\<rparr>"

definition use_model_ensemble_prefix :: "bool \<Rightarrow> client \<Rightarrow> client" where
  "use_model_ensemble_prefix b c =
     c\<lparr>model_prefix := b, calls := calls c @ [UseModelEnsemblePrefix b]\<rparr>"

definition use_tensor_ensemble_prefix :: "bool \<Rightarrow> client \<Rightarrow> client" where
  "use_tensor_ensemble_prefix b c =
     c\<lparr>tensor_prefix := b, calls := calls c @ [UseTensorEnsemblePrefix b]\<rparr>"

definition poll_dataset :: "store \<Rightarrow> string \<Rightarrow> int \<Rightarrow> int \<Rightarrow> client \<Rightarrow> bool \<times> client" where
  "poll_dataset st n a b c =
     (let found = poll_answer st c n a b
      in (found, c\<lparr>calls := calls c @ [PollDataset n a b found]\<rparr>))"

definition get_dataset :: "store \<Rightarrow> string \<Rightarrow> client \<Rightarrow> (error + dataset) \<times> client" where
  "get_dataset st n c =
     ((case dataset_at st c n of None \<Rightarrow> Inl (DatasetUnavailable n) | Some d \<Rightarrow> Inr d),
      c\<lparr>calls := calls c @ [GetDataset n]\<rparr>)"

definition tensor_exists :: "store \<Rightarrow> string \<Rightarrow> client \<Rightarrow> bool \<times> client" where
  "tensor_exists st k c =
     (let found = tensor_at st c k
      in (found, c\<lparr>calls := calls c @ [TensorExists k found]\<rparr>))"

text \<open>
  Modelled from the spec: \<open>meta.get_meta_strings(name)\<close> of the library's dataset class
  returns the strings of the field; a dataset without the field is malformed metadata,
  a hard failure.
\<close>

definition get_meta_strings :: "dataset \<Rightarrow> string \<Rightarrow> error + string list" where
  "get_meta_strings d n =
     (case meta_strings d n of None \<Rightarrow> Inl (MetaFieldMissing n) | Some xs \<Rightarrow> Inr xs)"

text \<open>Python's \<open>xs[0]\<close>: \<open>IndexError\<close> on an empty list.\<close>

definition item0 :: "'a list \<Rightarrow> error + 'a" where
  "item0 xs = (case xs of [] \<Rightarrow> Inl IndexError | x # _ \<Rightarrow> Inr x)"

subsection \<open>The resolver \<open>get_field_name\<close>\<close>

record ensemble_member =
  name :: string

type_synonym environ = "string \<rightharpoonup> string"

text \<open>Lines 31 to 36: the addressing set-up when an ensemble member is given.\<close>

definition scope_to :: "ensemble_member option \<Rightarrow> client \<Rightarrow> client" where
  "scope_to ensemble_member c =
     (case ensemble_member of
        None \<Rightarrow> c
      | Some e \<Rightarrow>
          use_tensor_ensemble_prefix True
            (use_model_ensemble_prefix True
              (use_list_ensemble_prefix True
                (use_dataset_ensemble_prefix True
                  (set_data_source (name e) c)))))"

text \<open>The message of the \<open>ValueError\<close> of line 40.\<close>

definition not_found_message :: "string \<Rightarrow> string \<Rightarrow> string" where
  "not_found_message ds_name prefix =
     ''Could not find dataset '' @ ds_name @ '' under prefix '' @ [CHR 0x27] @ prefix @ [CHR 0x27]"

text \<open>
  Lines 42 to 46, on the fetched dataset: each step can raise, and the first error
  ends the call. The dataset template is rendered first; a draw it makes is no longer
  there for the field template.
\<close>

definition compose_key :: "rng \<Rightarrow> dataset \<Rightarrow> string \<Rightarrow> pyval \<Rightarrow> pyval \<Rightarrow> error + string" where
  "compose_key rnd meta field_name processor timestep =
     (case get_meta_strings meta ''dataset'' of Inl err \<Rightarrow> Inl err | Inr ds_strings \<Rightarrow>
     (case item0 ds_strings of Inl err \<Rightarrow> Inl err | Inr ds_source \<Rightarrow>
     (case env_from_string ds_source of None \<Rightarrow> Inl (TemplateOutsideFragment ds_source) | Some ds_naming \<Rightarrow>
     (case render_compiled ds_naming [(''time_index'', timestep), (''mpi_rank'', processor)] rnd 0 of
        (ds_name, drawn) \<Rightarrow>
     (case get_meta_strings meta ''field'' of Inl err \<Rightarrow> Inl err | Inr f_strings \<Rightarrow>
     (case item0 f_strings of Inl err \<Rightarrow> Inl err | Inr f_source \<Rightarrow>
     (case env_from_string f_source of None \<Rightarrow> Inl (TemplateOutsideFragment f_source) | Some f_naming \<Rightarrow>
     (case render_compiled f_naming [(''name'', PyStr field_name), (''patch'', PyStr ''internal'')]
             rnd drawn of
        (f_name, drawn') \<Rightarrow>
      Inr (''{'' @ ds_name @ ''}.'' @ f_name)))))))))"

text \<open>
  The whole function. It returns the outcome (the key or the exception raised) and the
  client as the call leaves it: the client is mutated in place, also when the call
  raises. Besides the arguments of the Python function it takes what the call reads
  from outside: the store, the environment variables and the draws of the \<open>random\<close>
  module.
\<close>

definition get_field_name ::
  "store \<Rightarrow> environ \<Rightarrow> rng \<Rightarrow> client \<Rightarrow> string \<Rightarrow> string \<Rightarrow> pyval \<Rightarrow> pyval
     \<Rightarrow> ensemble_member option \<Rightarrow> (error + string) \<times> client" where
  "get_field_name st environ rnd client fn_name field_name processor timestep ensemble_member =
     (let c1 = scope_to ensemble_member client;
          ds_name = fn_name @ ''_metadata'';
          (ds_found, c2) = poll_dataset st ds_name 10 1000 c1
      in if \<not> ds_found then
           (case environ ''SSKEYIN'' of
              None \<Rightarrow> (Inl (KeyError ''SSKEYIN''), c2)
            | Some prefix \<Rightarrow> (Inl (ValueError (not_found_message ds_name prefix)), c2))
         else
           (case get_dataset st ds_name c2 of
              (Inl err, c3) \<Rightarrow> (Inl err, c3)
            | (Inr meta, c3) \<Rightarrow> (compose_key rnd meta field_name processor timestep, c3)))"

subsection \<open>The query loop of the script\<close>

text \<open>
  Lines 101 to 107. The loop prints one line per member; an exception of the resolver
  is not caught, so it ends the script with the lines printed so far. \<open>rnds j\<close> are the
  draws of the \<open>random\<close> module during the \<open>j\<close>-th call of the resolver that the loop
  makes.
\<close>

definition fn_name :: string where
  "fn_name = ''pUPhiTest''"

definition report_line :: "string \<Rightarrow> string \<Rightarrow> bool \<Rightarrow> string" where
  "report_line U_name member t_exists =
     ''--- '' @ U_name @ '' is found for member '' @ member @ ''? '' @ str_of_bool t_exists"

fun query_loop ::
  "store \<Rightarrow> environ \<Rightarrow> (nat \<Rightarrow> rng) \<Rightarrow> ensemble_member list \<Rightarrow> client \<Rightarrow> string list
     \<Rightarrow> error option \<times> client \<times> string list" where
  "query_loop st environ rnds [] client out = (None, client, out)"
| "query_loop st environ rnds (e # es) client out =
     (case get_field_name st environ (rnds 0) client fn_name ''U'' (PyInt 0) (PyInt 1) (Some e) of
        (Inl err, c1) \<Rightarrow> (Some err, c1, out)
      | (Inr U_name, c1) \<Rightarrow>
          (case tensor_exists st U_name c1 of
             (t_exists, c2) \<Rightarrow>
               query_loop st environ (\<lambda>j. rnds (Suc j)) es c2
                 (out @ [report_line U_name (name e) t_exists])))"

subsection \<open>Observations used to state the properties\<close>

text \<open>The addressing state of the client: its data source and its four toggles.\<close>

definition addressing :: "client \<Rightarrow> string \<times> bool \<times> bool \<times> bool \<times> bool" where
  "addressing c = (data_source c, dataset_prefix c, list_prefix c, model_prefix c, tensor_prefix c)"

text \<open>
  The answer the store gives to the poll of a call of the resolver, and the metadata
  dataset the call then fetches (\<open>None\<close> when the poll fails or the fetch raises).
\<close>

definition metadata_polled :: "store \<Rightarrow> client \<Rightarrow> string \<Rightarrow> ensemble_member option \<Rightarrow> bool" where
  "metadata_polled st client fn em =
     poll_answer st (scope_to em client) (fn @ ''_metadata'') 10 1000"

definition fetched_metadata ::
  "store \<Rightarrow> client \<Rightarrow> string \<Rightarrow> ensemble_member option \<Rightarrow> dataset option" where
  "fetched_metadata st client fn em =
     (case poll_dataset st (fn @ ''_metadata'') 10 1000 (scope_to em client) of
        (found, c2) \<Rightarrow> if found then dataset_at st c2 (fn @ ''_metadata'') else None)"

text \<open>A template without its references to names outside \<open>names\<close>.\<close>

definition drop_unsupplied :: "string list \<Rightarrow> template \<Rightarrow> template" where
  "drop_unsupplied names t =
     filter (\<lambda>n. case n of Data s \<Rightarrow> True | Var v \<Rightarrow> v \<in> set names) t"

text \<open>The keys and answers of the \<open>tensor_exists\<close> calls of a history, in order.\<close>

fun tensor_queries :: "call list \<Rightarrow> (string \<times> bool) list" where
  "tensor_queries [] = []"
| "tensor_queries (TensorExists k b # cs) = (k, b) # tensor_queries cs"
| "tensor_queries (x # cs) = tensor_queries cs"

text \<open>The arguments of the \<open>set_data_source\<close> calls of a history, in order.\<close>

fun data_sources :: "call list \<Rightarrow> string list" where
  "data_sources [] = []"
| "data_sources (SetDataSource s # cs) = s # data_sources cs"
| "data_sources (x # cs) = data_sources cs"

subsection \<open>Concrete inputs\<close>

definition client_fresh :: client where
  "client_fresh =
     \<lparr>data_source = [], dataset_prefix = False, list_prefix = False,
      model_prefix = False, tensor_prefix = False, calls = []\<rparr>"

definition member0 :: ensemble_member where
  "member0 = \<lparr>name = ''mesh-study_0''\<rparr>"

definition member1 :: ensemble_member where
  "member1 = \<lparr>name = ''mesh-study_1''\<rparr>"

definition metadata_example :: dataset where
  "metadata_example =
     \<lparr>meta_strings = map_of
        [(''dataset'', [''ts{{time_index}}_p{{mpi_rank}}'']),
         (''field'', [''{{name}}_{{patch}}''])]\<rparr>"

text \<open>A dataset template that refers to \<open>step\<close>, which the resolver never supplies.\<close>

definition metadata_unsupplied :: dataset where
  "metadata_unsupplied =
     \<lparr>meta_strings = map_of
        [(''dataset'', [''ts{{step}}_p{{mpi_rank}}'']),
         (''field'', [''{{name}}_{{patch}}''])]\<rparr>"

text \<open>A dataset without the field \<open>field\<close>, and one with two strings per field.\<close>

definition metadata_no_field :: dataset where
  "metadata_no_field =
     \<lparr>meta_strings = map_of [(''dataset'', [''ts{{time_index}}_p{{mpi_rank}}''])]\<rparr>"

definition metadata_two_strings :: dataset where
  "metadata_two_strings =
     \<lparr>meta_strings = map_of
        [(''dataset'', [''ts{{time_index}}_p{{mpi_rank}}'', ''other'']),
         (''field'', [''{{name}}_{{patch}}'', ''other''])]\<rparr>"

text \<open>Stores: one that holds a given metadata dataset and no tensor, one that holds nothing.\<close>

definition store_with :: "dataset \<Rightarrow> store" where
  "store_with d =
     \<lparr>poll_answer = (\<lambda>c n a b. True), dataset_at = (\<lambda>c n. Some d), tensor_at = (\<lambda>c k. False)\<rparr>"

definition store_empty :: store where
  "store_empty =
     \<lparr>poll_answer = (\<lambda>c n a b. False), dataset_at = (\<lambda>c n. None), tensor_at = (\<lambda>c k. False)\<rparr>"

text \<open>
  A store that holds the metadata dataset and, in the scope of \<open>mesh-study_0\<close> only, every
  tensor; and the client after the loop has run over two members on it.
\<close>

definition store_member0_tensor :: store where
  "store_member0_tensor =
     \<lparr>poll_answer = (\<lambda>c n a b. True), dataset_at = (\<lambda>c n. Some metadata_example),
      tensor_at = (\<lambda>c k. data_source c = ''mesh-study_0'')\<rparr>"

definition client_after_loop :: client where
  "client_after_loop =
     \<lparr>data_source = ''mesh-study_1'', dataset_prefix = True, list_prefix = True,
      model_prefix = True, tensor_prefix = True,
      calls =
        [SetDataSource ''mesh-study_0'', UseDatasetEnsemblePrefix True,
         UseListEnsemblePrefix True, UseModelEnsemblePrefix True, UseTensorEnsemblePrefix True,
         PollDataset ''pUPhiTest_metadata'' 10 1000 True, GetDataset ''pUPhiTest_metadata'',
         TensorExists ''{ts1_p0}.U_internal'' True,
         SetDataSource ''mesh-study_1'', UseDatasetEnsemblePrefix True,
         UseListEnsemblePrefix True, UseModelEnsemblePrefix True, UseTensorEnsemblePrefix True,
         PollDataset ''pUPhiTest_metadata'' 10 1000 True, GetDataset ''pUPhiTest_metadata'',
         TensorExists ''{ts1_p0}.U_internal'' False]\<rparr>"

text \<open>
  A dataset template with a random choice, and draws of the \<open>random\<close> module: always 0,
  always 3, always 4.
\<close>

definition metadata_random :: dataset where
  "metadata_random =
     \<lparr>meta_strings = map_of
        [(''dataset'', [''ts{{ range(1000000)|random }}'']),
         (''field'', [''{{name}}_{{patch}}''])]\<rparr>"

definition rnd_zero :: rng where
  "rnd_zero = (\<lambda>i. 0)"

definition rnd_three :: rng where
  "rnd_three = (\<lambda>i. 3)"

definition rnd_four :: rng where
  "rnd_four = (\<lambda>i. 4)"

definition rnds_zero :: "nat \<Rightarrow> rng" where
  "rnds_zero = (\<lambda>j. rnd_zero)"

definition environ_unset :: environ where
  "environ_unset = Map.empty"

definition environ_set :: environ where
  "environ_set = [''SSKEYIN'' \<mapsto> ''mesh-study_0,mesh-study_1'']"

section \<open>Properties\<close>

subsection \<open>Shared facts about the resolver\<close>

lemma str_of_int_0: "str_of_int 0 = ''0''"
  by code_simp

lemma str_of_int_1: "str_of_int 1 = ''1''"
  by code_simp

lemma calls_scope_to:
  "calls (scope_to em c) =
     calls c @ (case em of None \<Rightarrow> [] | Some e \<Rightarrow>
       [SetDataSource (name e), UseDatasetEnsemblePrefix True, UseListEnsemblePrefix True,
        UseModelEnsemblePrefix True, UseTensorEnsemblePrefix True])"
  by (simp add: scope_to_def set_data_source_def use_dataset_ensemble_prefix_def
        use_list_ensemble_prefix_def use_model_ensemble_prefix_def
        use_tensor_ensemble_prefix_def split: option.split)

lemma addressing_scope_to_None: "addressing (scope_to None c) = addressing c"
  by (simp add: scope_to_def)

lemma addressing_scope_to_Some:
  "addressing (scope_to (Some e) c) = (name e, True, True, True, True)"
  by (simp add: scope_to_def addressing_def set_data_source_def use_dataset_ensemble_prefix_def
        use_list_ensemble_prefix_def use_model_ensemble_prefix_def
        use_tensor_ensemble_prefix_def)

text \<open>The client after a call: scoped, then the poll and, when it succeeds, the fetch.\<close>

lemma get_field_name_client:
  "snd (get_field_name st environ rnd c fn field p t em) =
     (let c1 = scope_to em c; ds = fn @ ''_metadata''; found = poll_answer st c1 ds 10 1000
      in c1\<lparr>calls := calls c1 @ PollDataset ds 10 1000 found # (if found then [GetDataset ds] else [])\<rparr>)"
  by (simp add: get_field_name_def poll_dataset_def get_dataset_def Let_def
        split: option.split sum.split prod.split)

lemma get_field_name_not_found:
  "\<not> metadata_polled st c fn em \<Longrightarrow>
   fst (get_field_name st environ rnd c fn field p t em) =
     (case environ ''SSKEYIN'' of
        None \<Rightarrow> Inl (KeyError ''SSKEYIN'')
      | Some prefix \<Rightarrow> Inl (ValueError (not_found_message (fn @ ''_metadata'') prefix)))"
  by (simp add: get_field_name_def metadata_polled_def poll_dataset_def Let_def split: option.split)

lemma get_field_name_fetched:
  "fetched_metadata st c fn em = Some meta \<Longrightarrow>
   fst (get_field_name st environ rnd c fn field p t em) = compose_key rnd meta field p t"
  by (auto simp add: get_field_name_def fetched_metadata_def poll_dataset_def get_dataset_def Let_def
        split: option.split sum.split prod.split if_splits)

lemma env_from_string_plain: "from_string T = Some t \<Longrightarrow> env_from_string T = Some (Plain t)"
  by (simp add: env_from_string_def)

lemma compose_key_templates:
  "meta_strings meta ''dataset'' = Some (T_ds # more_ds) \<Longrightarrow>
   meta_strings meta ''field'' = Some (T_f # more_f) \<Longrightarrow>
   from_string T_ds = Some ds_naming \<Longrightarrow>
   from_string T_f = Some f_naming \<Longrightarrow>
   compose_key rnd meta field p t =
     Inr (''{'' @ render ds_naming [(''time_index'', t), (''mpi_rank'', p)] @ ''}.'' @
          render f_naming [(''name'', PyStr field), (''patch'', PyStr ''internal'')])"
  by (simp add: compose_key_def get_meta_strings_def item0_def env_from_string_plain)

text \<open>Only the first string of each field is read.\<close>

lemma compose_key_first:
  "meta_strings meta ''dataset'' = Some (T_ds # more_ds) \<Longrightarrow>
   meta_strings meta ''field'' = Some (T_f # more_f) \<Longrightarrow>
   meta_strings meta' ''dataset'' = Some (T_ds # more_ds') \<Longrightarrow>
   meta_strings meta' ''field'' = Some (T_f # more_f') \<Longrightarrow>
   compose_key rnd meta field p t = compose_key rnd meta' field p t"
  by (simp add: compose_key_def get_meta_strings_def item0_def split: option.split prod.split)

lemma from_string_dataset_example:
  "from_string ''ts{{time_index}}_p{{mpi_rank}}'' =
     Some [Data ''ts'', Var ''time_index'', Data ''_p'', Var ''mpi_rank'']"
  by code_simp

lemma from_string_field_example:
  "from_string ''{{name}}_{{patch}}'' = Some [Var ''name'', Data ''_'', Var ''patch'']"
  by code_simp

lemma fetched_metadata_store_with:
  "fetched_metadata (store_with d) c fn em = Some d"
  by (simp add: fetched_metadata_def poll_dataset_def store_with_def)

lemma metadata_polled_store_empty: "\<not> metadata_polled store_empty c fn em"
  by (simp add: metadata_polled_def store_empty_def)

subsection \<open>The resolved key\<close>

text \<open>
  C1. When the metadata dataset is found and its fields \<open>dataset\<close> and \<open>field\<close> start with
  the template strings \<open>T_ds\<close> and \<open>T_f\<close> (both in the modelled fragment), the call returns
  the opening brace, \<open>T_ds\<close> rendered with \<open>time_index = timestep\<close> and
  \<open>mpi_rank = processor\<close>, the closing brace and a dot, and \<open>T_f\<close> rendered with
  \<open>name = field_name\<close> and \<open>patch = internal\<close>. The instance of the specification,
  \<open>{ts1_p0}.U_internal\<close>, is the witness.
\<close>

theorem resolved_key_composition:
  assumes "fetched_metadata st c fn em = Some meta"
    and "meta_strings meta ''dataset'' = Some (T_ds # more_ds)"
    and "meta_strings meta ''field'' = Some (T_f # more_f)"
    and "from_string T_ds = Some ds_naming"
    and "from_string T_f = Some f_naming"
  shows "fst (get_field_name st environ rnd c fn field_name processor timestep em) =
     Inr (''{'' @ render ds_naming [(''time_index'', timestep), (''mpi_rank'', processor)] @ ''}.'' @
          render f_naming [(''name'', PyStr field_name), (''patch'', PyStr ''internal'')])"
proof -
  have "fst (get_field_name st environ rnd c fn field_name processor timestep em) =
        compose_key rnd meta field_name processor timestep"
    using assms(1) by (rule get_field_name_fetched)
  also have "\<dots> = Inr (''{'' @ render ds_naming [(''time_index'', timestep), (''mpi_rank'', processor)] @ ''}.'' @
          render f_naming [(''name'', PyStr field_name), (''patch'', PyStr ''internal'')])"
    by (rule compose_key_templates [OF assms(2,3,4,5)])
  finally show ?thesis .
qed

theorem resolved_key_composition_witness:
  "fetched_metadata (store_with metadata_example) client_fresh ''pUPhiTest'' (Some member0)
     = Some metadata_example
   \<and> fst (get_field_name (store_with metadata_example) environ_set rnd_zero client_fresh
            ''pUPhiTest'' ''U'' (PyInt 0) (PyInt 1) (Some member0))
     = Inr ''{ts1_p0}.U_internal''"
proof -
  have h1: "fetched_metadata (store_with metadata_example) client_fresh ''pUPhiTest'' (Some member0)
     = Some metadata_example"
    by (rule fetched_metadata_store_with)
  have h2: "meta_strings metadata_example ''dataset'' = Some (''ts{{time_index}}_p{{mpi_rank}}'' # [])"
    by (simp add: metadata_example_def)
  have h3: "meta_strings metadata_example ''field'' = Some (''{{name}}_{{patch}}'' # [])"
    by (simp add: metadata_example_def)
  show ?thesis
    using h1
      resolved_key_composition [OF h1 h2 h3 from_string_dataset_example from_string_field_example,
        where environ = environ_set and rnd = rnd_zero and field_name = "''U''"
          and processor = "PyInt 0" and timestep = "PyInt 1"]
    by (simp add: render_def str_of_int_0 str_of_int_1)
qed

subsection \<open>The metadata dataset is not found\<close>


text \<open>
  C9. On the not-found path the message is built from \<open>os.environ['SSKEYIN']\<close>: without
  the variable the call raises \<open>KeyError\<close>, with it the descriptive \<open>ValueError\<close>.
\<close>

theorem not_found_reads_environment:
  assumes "\<not> metadata_polled st c fn em"
  shows "fst (get_field_name st environ rnd c fn field_name processor timestep em) =
     (case environ ''SSKEYIN'' of
        None \<Rightarrow> Inl (KeyError ''SSKEYIN'')
      | Some prefix \<Rightarrow>
          Inl (ValueError (''Could not find dataset '' @ fn @ ''_metadata under prefix '' @
                           [CHR 0x27] @ prefix @ [CHR 0x27])))"
  using assms by (simp add: get_field_name_not_found not_found_message_def split: option.split)

theorem not_found_reads_environment_witness:
  "\<not> metadata_polled store_empty client_fresh ''pUPhiTest'' (Some member0)
   \<and> fst (get_field_name store_empty environ_unset rnd_zero client_fresh ''pUPhiTest'' ''U''
             (PyInt 0) (PyInt 1) (Some member0)) = Inl (KeyError ''SSKEYIN'')
   \<and> fst (get_field_name store_empty environ_set rnd_zero client_fresh ''pUPhiTest'' ''U''
             (PyInt 0) (PyInt 1) (Some member0)) =
       Inl (ValueError (''Could not find dataset pUPhiTest_metadata under prefix '' @
                        [CHR 0x27] @ ''mesh-study_0,mesh-study_1'' @ [CHR 0x27]))"
proof -
  have h: "\<not> metadata_polled store_empty client_fresh ''pUPhiTest'' (Some member0)"
    by (rule metadata_polled_store_empty)
  show ?thesis
    using h
      not_found_reads_environment [OF h, where environ = environ_unset and rnd = rnd_zero and field_name = "''U''"
          and processor = "PyInt 0" and timestep = "PyInt 1"]
      not_found_reads_environment [OF h, where environ = environ_set and rnd = rnd_zero and field_name = "''U''"
          and processor = "PyInt 0" and timestep = "PyInt 1"]
    by (simp add: environ_unset_def environ_set_def)
qed

subsection \<open>The addressing state of the client\<close>

text \<open>
  C4. With an ensemble member, the calls on the client are, in this order: the data source
  set to the member's name, the four toggles switched on (dataset, list, model, tensor),
  then the poll and, when it succeeds, the fetch. The store answers the poll to a client
  whose addressing state is the member's name with all four toggles on, and that is the
  state the call leaves.
\<close>

theorem scoping_before_lookup:
  "calls (snd (get_field_name st environ rnd c fn field_name processor timestep (Some e))) =
     calls c @
       [SetDataSource (name e), UseDatasetEnsemblePrefix True, UseListEnsemblePrefix True,
        UseModelEnsemblePrefix True, UseTensorEnsemblePrefix True,
        PollDataset (fn @ ''_metadata'') 10 1000 (metadata_polled st c fn (Some e))] @
       (if metadata_polled st c fn (Some e) then [GetDataset (fn @ ''_metadata'')] else [])
   \<and> metadata_polled st c fn (Some e) =
       poll_answer st (scope_to (Some e) c) (fn @ ''_metadata'') 10 1000
   \<and> addressing (scope_to (Some e) c) = (name e, True, True, True, True)
   \<and> addressing (snd (get_field_name st environ rnd c fn field_name processor timestep (Some e))) =
       (name e, True, True, True, True)"
proof -
  have "addressing (snd (get_field_name st environ rnd c fn field_name processor timestep (Some e))) =
        addressing (scope_to (Some e) c)"
    by (simp add: get_field_name_client Let_def addressing_def)
  then show ?thesis
    by (simp add: get_field_name_client calls_scope_to addressing_scope_to_Some
          metadata_polled_def Let_def)
qed

text \<open>
  C5. Without an ensemble member the call makes no addressing call (its calls are the
  poll and, when it succeeds, the fetch) and leaves the addressing state as it found it;
  so after a call with a member, a later call without one still leaves the client
  scoped to that member.
\<close>

theorem addressing_only_with_member:
  "addressing (snd (get_field_name st environ rnd c fn field_name processor timestep None)) =
     addressing c
   \<and> calls (snd (get_field_name st environ rnd c fn field_name processor timestep None)) =
       calls c @ PollDataset (fn @ ''_metadata'') 10 1000 (metadata_polled st c fn None) #
         (if metadata_polled st c fn None then [GetDataset (fn @ ''_metadata'')] else [])
   \<and> addressing
       (snd (get_field_name st2 environ2 rnd2
               (snd (get_field_name st environ rnd c fn field_name processor timestep (Some e)))
               fn2 field_name2 processor2 timestep2 None)) =
     (name e, True, True, True, True)"
proof -
  have frame: "addressing (snd (get_field_name s v r k f g p t m)) = addressing (scope_to m k)"
    for s v r k f g p t m
    by (simp add: get_field_name_client Let_def addressing_def)
  have a: "addressing (snd (get_field_name st environ rnd c fn field_name processor timestep None)) =
     addressing c"
    by (simp only: frame addressing_scope_to_None)
  have b: "calls (snd (get_field_name st environ rnd c fn field_name processor timestep None)) =
       calls c @ PollDataset (fn @ ''_metadata'') 10 1000 (metadata_polled st c fn None) #
         (if metadata_polled st c fn None then [GetDataset (fn @ ''_metadata'')] else [])"
    by (simp add: get_field_name_client Let_def calls_scope_to metadata_polled_def)
  have "addressing
       (snd (get_field_name st2 environ2 rnd2
               (snd (get_field_name st environ rnd c fn field_name processor timestep (Some e)))
               fn2 field_name2 processor2 timestep2 None)) =
     addressing (snd (get_field_name st environ rnd c fn field_name processor timestep (Some e)))"
    by (simp only: frame addressing_scope_to_None)
  also have "\<dots> = (name e, True, True, True, True)"
    by (simp only: frame addressing_scope_to_Some)
  finally show ?thesis
    using a b by simp
qed

lemma render_drop_unsupplied:
  "set names = fst ` set kw \<Longrightarrow> render (drop_unsupplied names t) kw = render t kw"
proof (induction t)
  case Nil
  then show ?case by (simp add: render_def drop_unsupplied_def)
next
  case (Cons n t)
  then have ih: "render (drop_unsupplied names t) kw = render t kw" by simp
  show ?case
  proof (cases n)
    case (Data s)
    with ih show ?thesis by (simp add: render_def drop_unsupplied_def)
  next
    case (Var v)
    show ?thesis
    proof (cases "v \<in> set names")
      case True
      with ih Var show ?thesis by (simp add: render_def drop_unsupplied_def)
    next
      case False
      with Cons.prems have "map_of kw v = None" by (simp add: map_of_eq_None_iff)
      with ih Var False show ?thesis by (simp add: render_def drop_unsupplied_def)
    qed
  qed
qed

lemma from_string_unsupplied_example:
  "from_string ''ts{{step}}_p{{mpi_rank}}'' =
     Some [Data ''ts'', Var ''step'', Data ''_p'', Var ''mpi_rank'']"
  by code_simp

subsection \<open>Templates that refer to a parameter the resolver does not supply\<close>

text \<open>
  C3, as amended. The environment of line 17 is created with the defaults. For stored
  templates that are plain (literal text and references \<open>{{ name }}\<close>), a reference to a
  name that is not among the keyword arguments of \<open>render\<close> does not raise: it prints as
  the empty string, and the call returns the key composed from the two templates with
  such references deleted. A template that uses such a name inside a larger expression
  is not plain, and this statement says nothing about it.
\<close>

theorem unsupplied_parameter_renders_empty:
  assumes "fetched_metadata st c fn em = Some meta"
    and "meta_strings meta ''dataset'' = Some (T_ds # more_ds)"
    and "meta_strings meta ''field'' = Some (T_f # more_f)"
    and "from_string T_ds = Some ds_naming"
    and "from_string T_f = Some f_naming"
  shows "fst (get_field_name st environ rnd c fn field_name processor timestep em) =
     Inr (''{'' @ render (drop_unsupplied [''time_index'', ''mpi_rank''] ds_naming)
                    [(''time_index'', timestep), (''mpi_rank'', processor)] @ ''}.'' @
          render (drop_unsupplied [''name'', ''patch''] f_naming)
                    [(''name'', PyStr field_name), (''patch'', PyStr ''internal'')])"
proof -
  have "fst (get_field_name st environ rnd c fn field_name processor timestep em) =
        compose_key rnd meta field_name processor timestep"
    using assms(1) by (rule get_field_name_fetched)
  also have "\<dots> = Inr (''{'' @ render ds_naming [(''time_index'', timestep), (''mpi_rank'', processor)] @ ''}.'' @
          render f_naming [(''name'', PyStr field_name), (''patch'', PyStr ''internal'')])"
    by (rule compose_key_templates [OF assms(2,3,4,5)])
  finally show ?thesis
    by (simp add: render_drop_unsupplied)
qed

theorem unsupplied_parameter_renders_empty_witness:
  "fetched_metadata (store_with metadata_unsupplied) client_fresh ''pUPhiTest'' (Some member0)
     = Some metadata_unsupplied
   \<and> from_string ''ts{{step}}_p{{mpi_rank}}'' =
       Some [Data ''ts'', Var ''step'', Data ''_p'', Var ''mpi_rank'']
   \<and> fst (get_field_name (store_with metadata_unsupplied) environ_set rnd_zero client_fresh
            ''pUPhiTest'' ''U'' (PyInt 0) (PyInt 1) (Some member0))
     = Inr ''{ts_p0}.U_internal''"
proof -
  have h1: "fetched_metadata (store_with metadata_unsupplied) client_fresh ''pUPhiTest'' (Some member0)
     = Some metadata_unsupplied"
    by (rule fetched_metadata_store_with)
  have h2: "meta_strings metadata_unsupplied ''dataset'' = Some (''ts{{step}}_p{{mpi_rank}}'' # [])"
    by (simp add: metadata_unsupplied_def)
  have h3: "meta_strings metadata_unsupplied ''field'' = Some (''{{name}}_{{patch}}'' # [])"
    by (simp add: metadata_unsupplied_def)
  show ?thesis
    using h1 from_string_unsupplied_example
      unsupplied_parameter_renders_empty
        [OF h1 h2 h3 from_string_unsupplied_example from_string_field_example,
         where environ = environ_set and rnd = rnd_zero and field_name = "''U''"
          and processor = "PyInt 0" and timestep = "PyInt 1"]
    by (simp add: render_def drop_unsupplied_def str_of_int_0)
qed

text \<open>
  C3 as stated fails: with the dataset template \<open>ts{{step}}_p{{mpi_rank}}\<close> the call
  returns a key, with nothing in the place of \<open>step\<close>.
\<close>

theorem unsupplied_parameter_counterexample:
  "fst (get_field_name (store_with metadata_unsupplied) environ_set rnd_zero client_fresh
          ''pUPhiTest'' ''U'' (PyInt 0) (PyInt 1) None)
     = Inr ''{ts_p0}.U_internal''"
proof -
  have "compose_key rnd_zero metadata_unsupplied ''U'' (PyInt 0) (PyInt 1) = Inr ''{ts_p0}.U_internal''"
    by (simp add: compose_key_def get_meta_strings_def item0_def metadata_unsupplied_def
          env_from_string_plain [OF from_string_unsupplied_example]
          env_from_string_plain [OF from_string_field_example] render_def str_of_int_0)
  then show ?thesis
    by (simp add: get_field_name_fetched [OF fetched_metadata_store_with])
qed

lemma compose_key_malformed:
  "meta_strings meta ''dataset'' = None \<or> meta_strings meta ''dataset'' = Some [] \<or>
   meta_strings meta ''field'' = None \<or> meta_strings meta ''field'' = Some [] \<Longrightarrow>
   isl (compose_key rnd meta field p t)"
  by (auto simp add: compose_key_def get_meta_strings_def item0_def Let_def
        split: option.split sum.split list.split)

lemma compose_key_example:
  "compose_key rnd metadata_example ''U'' (PyInt 0) (PyInt 1) = Inr ''{ts1_p0}.U_internal''"
  by (simp add: compose_key_def get_meta_strings_def item0_def metadata_example_def
        env_from_string_plain [OF from_string_dataset_example]
          env_from_string_plain [OF from_string_field_example] render_def
        str_of_int_0 str_of_int_1)

subsection \<open>Malformed metadata\<close>

text \<open>
  C6. When the metadata dataset is fetched but its field \<open>dataset\<close> or its field \<open>field\<close>
  is missing or holds an empty list, the call ends in an error and returns no key. When
  both fields hold at least one string, the outcome is the one of a dataset that holds
  only the first string of each: the further strings are never read.
\<close>

theorem malformed_metadata_fails:
  assumes "fetched_metadata st c fn em = Some meta"
  shows "(meta_strings meta ''dataset'' = None \<or> meta_strings meta ''dataset'' = Some [] \<or>
          meta_strings meta ''field'' = None \<or> meta_strings meta ''field'' = Some [] \<longrightarrow>
            isl (fst (get_field_name st environ rnd c fn field_name processor timestep em)))
       \<and> (meta_strings meta ''dataset'' = Some (T_ds # more_ds) \<longrightarrow>
          meta_strings meta ''field'' = Some (T_f # more_f) \<longrightarrow>
            fst (get_field_name st environ rnd c fn field_name processor timestep em) =
              compose_key rnd \<lparr>meta_strings = [''dataset'' \<mapsto> [T_ds], ''field'' \<mapsto> [T_f]]\<rparr>
                field_name processor timestep)"
proof -
  have key: "fst (get_field_name st environ rnd c fn field_name processor timestep em) =
        compose_key rnd meta field_name processor timestep"
    using assms by (rule get_field_name_fetched)
  have first: "compose_key rnd meta field_name processor timestep =
      compose_key rnd \<lparr>meta_strings = [''dataset'' \<mapsto> [T_ds], ''field'' \<mapsto> [T_f]]\<rparr>
        field_name processor timestep"
    if "meta_strings meta ''dataset'' = Some (T_ds # more_ds)"
      and "meta_strings meta ''field'' = Some (T_f # more_f)"
    using that by (intro compose_key_first) simp_all
  show ?thesis
    using key first compose_key_malformed [of meta rnd field_name processor timestep] by simp
qed

theorem malformed_metadata_fails_witness:
  "fetched_metadata (store_with metadata_no_field) client_fresh ''pUPhiTest'' None
     = Some metadata_no_field
   \<and> meta_strings metadata_no_field ''field'' = None
   \<and> isl (fst (get_field_name (store_with metadata_no_field) environ_set rnd_zero client_fresh
                 ''pUPhiTest'' ''U'' (PyInt 0) (PyInt 1) None))
   \<and> fetched_metadata (store_with metadata_two_strings) client_fresh ''pUPhiTest'' None
     = Some metadata_two_strings
   \<and> fst (get_field_name (store_with metadata_two_strings) environ_set rnd_zero client_fresh
            ''pUPhiTest'' ''U'' (PyInt 0) (PyInt 1) None) = Inr ''{ts1_p0}.U_internal''"
proof -
  have h1: "fetched_metadata (store_with metadata_no_field) client_fresh ''pUPhiTest'' None
     = Some metadata_no_field"
    by (rule fetched_metadata_store_with)
  have h2: "fetched_metadata (store_with metadata_two_strings) client_fresh ''pUPhiTest'' None
     = Some metadata_two_strings"
    by (rule fetched_metadata_store_with)
  have n: "meta_strings metadata_no_field ''field'' = None"
    by (simp add: metadata_no_field_def)
  have d: "meta_strings metadata_two_strings ''dataset'' =
      Some (''ts{{time_index}}_p{{mpi_rank}}'' # [''other''])"
    by (simp add: metadata_two_strings_def)
  have f: "meta_strings metadata_two_strings ''field'' = Some (''{{name}}_{{patch}}'' # [''other''])"
    by (simp add: metadata_two_strings_def)
  have same: "\<lparr>meta_strings = [''dataset'' \<mapsto> [''ts{{time_index}}_p{{mpi_rank}}''],
                               ''field'' \<mapsto> [''{{name}}_{{patch}}'']]\<rparr> = metadata_example"
    by (auto simp add: metadata_example_def)
  show ?thesis
    using h1 h2 n d f
      malformed_metadata_fails [OF h1, where environ = environ_set and rnd = rnd_zero and field_name = "''U''"
          and processor = "PyInt 0" and timestep = "PyInt 1"]
      malformed_metadata_fails [OF h2, where environ = environ_set and rnd = rnd_zero and field_name = "''U''"
          and processor = "PyInt 0" and timestep = "PyInt 1"
          and T_ds = "''ts{{time_index}}_p{{mpi_rank}}''" and more_ds = "[''other'']"
          and T_f = "''{{name}}_{{patch}}''" and more_f = "[''other'']"]
    by (simp add: same compose_key_example)
qed

subsection \<open>The key depends on the templates and the request only\<close>

lemma env_from_string_random_example:
  "env_from_string ''ts{{ range(1000000)|random }}'' = Some (RandomChoice ''ts'' 1000000 [])"
proof -
  have plain: "from_string ''ts{{ range(1000000)|random }}'' = None"
    by code_simp
  have lit: "literal_text ''ts''" "literal_text []"
    by code_simp+
  have "strip_blanks '' range(1000000)|random '' = ''range(1000000)|random''"
    by code_simp
  then have choice: "random_choice_of '' range(1000000)|random '' = Some 1000000"
    by (simp add: random_choice_of_def decimal_literal_def digit_value_def)
  have "split_at_open ''ts{{ range(1000000)|random }}'' =
      Some (''ts'', '' range(1000000)|random }}'')"
    by code_simp
  moreover have "split_at_close '' range(1000000)|random }}'' =
      Some ('' range(1000000)|random '', [])"
    by code_simp
  ultimately have "from_string_random ''ts{{ range(1000000)|random }}'' = Some (''ts'', 1000000, [])"
    by (simp add: from_string_random_def choice lit)
  then show ?thesis
    by (simp add: env_from_string_def plain)
qed

lemma str_of_nat_3: "str_of_nat 3 = ''3''"
  by code_simp

lemma str_of_nat_4: "str_of_nat 4 = ''4''"
  by code_simp

lemma compose_key_random:
  "compose_key rnd metadata_random ''U'' (PyInt 0) (PyInt 1) =
     Inr (''{ts'' @ str_of_nat (rnd 0 mod 1000000) @ ''}.U_internal'')"
  by (simp add: compose_key_def get_meta_strings_def item0_def metadata_random_def
        env_from_string_random_example env_from_string_plain [OF from_string_field_example]
        render_def)

text \<open>
  C8, as amended. Two calls with the same \<open>fn_name\<close>, \<open>field_name\<close>, \<open>processor\<close> and
  \<open>timestep\<close>, each finding a metadata dataset whose fields start with the same two
  template strings, both plain templates (literal text and references to names), have
  the same outcome, whatever the stores, the environments, the draws of the \<open>random\<close>
  module, the clients and the ensemble members of the two calls are.
\<close>

theorem resolver_deterministic:
  assumes "fetched_metadata st1 c1 fn em1 = Some meta1"
    and "fetched_metadata st2 c2 fn em2 = Some meta2"
    and "meta_strings meta1 ''dataset'' = Some (T_ds # more_ds1)"
    and "meta_strings meta2 ''dataset'' = Some (T_ds # more_ds2)"
    and "meta_strings meta1 ''field'' = Some (T_f # more_f1)"
    and "meta_strings meta2 ''field'' = Some (T_f # more_f2)"
    and "from_string T_ds = Some ds_naming"
    and "from_string T_f = Some f_naming"
  shows "fst (get_field_name st1 environ1 rnd1 c1 fn field_name processor timestep em1) =
         fst (get_field_name st2 environ2 rnd2 c2 fn field_name processor timestep em2)"
proof -
  have "fst (get_field_name st1 environ1 rnd1 c1 fn field_name processor timestep em1) =
        compose_key rnd1 meta1 field_name processor timestep"
    using assms(1) by (rule get_field_name_fetched)
  also have "\<dots> =
     Inr (''{'' @ render ds_naming [(''time_index'', timestep), (''mpi_rank'', processor)] @ ''}.'' @
          render f_naming [(''name'', PyStr field_name), (''patch'', PyStr ''internal'')])"
    by (rule compose_key_templates [OF assms(3,5,7,8)])
  also have "\<dots> = compose_key rnd2 meta2 field_name processor timestep"
    by (rule compose_key_templates [OF assms(4,6,7,8), symmetric])
  also have "\<dots> = fst (get_field_name st2 environ2 rnd2 c2 fn field_name processor timestep em2)"
    using assms(2) by (rule get_field_name_fetched [symmetric])
  finally show ?thesis .
qed

theorem resolver_deterministic_witness:
  "fetched_metadata (store_with metadata_example) client_fresh ''pUPhiTest'' (Some member0)
     = Some metadata_example
   \<and> fetched_metadata (store_with metadata_two_strings)
        (snd (get_field_name store_empty environ_unset rnd_zero client_fresh ''other'' ''p''
                (PyInt 3) PyNone (Some member1)))
        ''pUPhiTest'' None
     = Some metadata_two_strings
   \<and> fst (get_field_name (store_with metadata_two_strings) environ_unset rnd_three
            (snd (get_field_name store_empty environ_unset rnd_zero client_fresh ''other'' ''p''
                    (PyInt 3) PyNone (Some member1)))
            ''pUPhiTest'' ''U'' (PyInt 0) (PyInt 1) None)
     = fst (get_field_name (store_with metadata_example) environ_set rnd_four client_fresh
            ''pUPhiTest'' ''U'' (PyInt 0) (PyInt 1) (Some member0))
   \<and> fst (get_field_name (store_with metadata_example) environ_set rnd_four client_fresh
            ''pUPhiTest'' ''U'' (PyInt 0) (PyInt 1) (Some member0)) = Inr ''{ts1_p0}.U_internal''"
proof -
  have h1: "fetched_metadata (store_with metadata_example) client_fresh ''pUPhiTest'' (Some member0)
     = Some metadata_example"
    by (rule fetched_metadata_store_with)
  have h2: "fetched_metadata (store_with metadata_two_strings)
        (snd (get_field_name store_empty environ_unset rnd_zero client_fresh ''other'' ''p''
                (PyInt 3) PyNone (Some member1)))
        ''pUPhiTest'' None
     = Some metadata_two_strings"
    by (rule fetched_metadata_store_with)
  have d1: "meta_strings metadata_example ''dataset'' = Some (''ts{{time_index}}_p{{mpi_rank}}'' # [])"
    by (simp add: metadata_example_def)
  have f1: "meta_strings metadata_example ''field'' = Some (''{{name}}_{{patch}}'' # [])"
    by (simp add: metadata_example_def)
  have d2: "meta_strings metadata_two_strings ''dataset'' =
      Some (''ts{{time_index}}_p{{mpi_rank}}'' # [''other''])"
    by (simp add: metadata_two_strings_def)
  have f2: "meta_strings metadata_two_strings ''field'' = Some (''{{name}}_{{patch}}'' # [''other''])"
    by (simp add: metadata_two_strings_def)
  have v: "fst (get_field_name (store_with metadata_example) environ_set rnd_four client_fresh
            ''pUPhiTest'' ''U'' (PyInt 0) (PyInt 1) (Some member0)) = Inr ''{ts1_p0}.U_internal''"
    by (simp only: get_field_name_fetched [OF h1] compose_key_example)
  show ?thesis
    using h1 h2 v
      resolver_deterministic [OF h2 h1 d2 d1 f2 f1 from_string_dataset_example
        from_string_field_example,
        where ?environ1.0 = environ_unset and ?rnd1.0 = rnd_three and field_name = "''U''"
          and processor = "PyInt 0" and timestep = "PyInt 1"
          and ?environ2.0 = environ_set and ?rnd2.0 = rnd_four]
    by simp
qed

text \<open>
  C8 as stated fails: with the dataset template \<open>ts{{ range(1000000)|random }}\<close> two calls
  with the same arguments on the same store return different keys when the \<open>random\<close>
  module yields 3 during the one and 4 during the other.
\<close>

theorem random_template_counterexample:
  "fst (get_field_name (store_with metadata_random) environ_set rnd_three client_fresh
          ''pUPhiTest'' ''U'' (PyInt 0) (PyInt 1) None) = Inr ''{ts3}.U_internal''
   \<and> fst (get_field_name (store_with metadata_random) environ_set rnd_four client_fresh
          ''pUPhiTest'' ''U'' (PyInt 0) (PyInt 1) None) = Inr ''{ts4}.U_internal''"
  by (simp add: get_field_name_fetched [OF fetched_metadata_store_with] compose_key_random
        rnd_three_def rnd_four_def str_of_nat_3 str_of_nat_4)


subsection \<open>A call without a timestep\<close>



lemma tensor_queries_append:
  "tensor_queries (xs @ ys) = tensor_queries xs @ tensor_queries ys"
  by (induction xs rule: tensor_queries.induct) simp_all

lemma data_sources_append:
  "data_sources (xs @ ys) = data_sources xs @ data_sources ys"
  by (induction xs rule: data_sources.induct) simp_all

lemma resolver_tensor_queries:
  "tensor_queries (calls (snd (get_field_name st environ rnd c fn field p t em))) =
     tensor_queries (calls c)"
  by (simp add: get_field_name_client Let_def calls_scope_to tensor_queries_append
        split: option.split)

lemma resolver_data_sources:
  "data_sources (calls (snd (get_field_name st environ rnd c fn field p t (Some e)))) =
     data_sources (calls c) @ [name e]"
  by (simp add: get_field_name_client Let_def calls_scope_to data_sources_append)

lemma query_loop_Cons_Inl:
  "get_field_name st environ (rnds 0) c ''pUPhiTest'' ''U'' (PyInt 0) (PyInt 1) (Some e) = (Inl err, c1) \<Longrightarrow>
   query_loop st environ rnds (e # es) c out = (Some err, c1, out)"
  by (simp add: fn_name_def)

lemma query_loop_Cons_Inr:
  "get_field_name st environ (rnds 0) c ''pUPhiTest'' ''U'' (PyInt 0) (PyInt 1) (Some e) = (Inr k, c1) \<Longrightarrow>
   query_loop st environ rnds (e # es) c out =
     query_loop st environ (\<lambda>j. rnds (Suc j)) es (c1\<lparr>calls := calls c1 @ [TensorExists k (tensor_at st c1 k)]\<rparr>)
       (out @ [report_line k (name e) (tensor_at st c1 k)])"
  by (simp add: fn_name_def tensor_exists_def Let_def)

subsection \<open>The query loop\<close>

text \<open>
  C7. The loop takes the members in their order. For each one it calls the resolver with
  \<open>pUPhiTest\<close>, \<open>U\<close>, rank 0, timestep 1 and that member, asks \<open>tensor_exists\<close> once for the
  key returned, and prints one line with that key, the member's name and the answer of
  the store. Stated on a finished run: there are the keys with their answers \<open>kbs\<close>, one
  pair per member handled, and the clients \<open>cs\<close> at the start of each round, such that
  round \<open>i\<close> resolves member \<open>i\<close> on client \<open>cs ! i\<close> to the key of pair \<open>i\<close>, the answer of
  pair \<open>i\<close> is what the store holds for that key as the resolver left the client, and the
  next round starts from that client with the one \<open>tensor_exists\<close> call added. The lines
  printed are the reports of these pairs, the \<open>tensor_exists\<close> calls added to the history
  are exactly these pairs, and the data sources set are the names of the members
  reached. The run ends without an exception exactly when every member has its line,
  whatever the answers were; an exception that ends it is the one the resolver raises
  for the next member.
\<close>

theorem query_loop_reports:
  assumes "query_loop st environ rnds ms c out = (r, c', out')"
  shows "\<exists>kbs cs. length kbs \<le> length ms \<and> length cs = Suc (length kbs) \<and> cs ! 0 = c
     \<and> (\<forall>i<length kbs.
          let res = get_field_name st environ (rnds i) (cs ! i)
                      ''pUPhiTest'' ''U'' (PyInt 0) (PyInt 1) (Some (ms ! i));
              k = fst (kbs ! i); b = snd (kbs ! i)
          in fst res = Inr k \<and> b = tensor_at st (snd res) k
             \<and> cs ! Suc i = (snd res)\<lparr>calls := calls (snd res) @ [TensorExists k b]\<rparr>)
     \<and> out' = out @ map (\<lambda>(e, k, b). report_line k (name e) b) (zip ms kbs)
     \<and> tensor_queries (calls c') = tensor_queries (calls c) @ kbs
     \<and> data_sources (calls c') = data_sources (calls c) @ map name (take (Suc (length kbs)) ms)
     \<and> (r = None \<longleftrightarrow> length kbs = length ms)
     \<and> (r = None \<longrightarrow> c' = last cs)
     \<and> (\<forall>err. r = Some err \<longrightarrow>
          get_field_name st environ (rnds (length kbs)) (last cs)
            ''pUPhiTest'' ''U'' (PyInt 0) (PyInt 1) (Some (ms ! length kbs)) = (Inl err, c'))"
  using assms
proof (induction ms arbitrary: c out rnds)
  case Nil
  then show ?case
    by (intro exI [of _ "[]"] exI [of _ "[c]"]) simp
next
  case (Cons e es)
  obtain res c1 where g:
    "get_field_name st environ (rnds 0) c ''pUPhiTest'' ''U'' (PyInt 0) (PyInt 1) (Some e) = (res, c1)"
    by (cases "get_field_name st environ (rnds 0) c ''pUPhiTest'' ''U'' (PyInt 0) (PyInt 1) (Some e)")
  have c1: "c1 = snd (get_field_name st environ (rnds 0) c ''pUPhiTest'' ''U'' (PyInt 0) (PyInt 1) (Some e))"
    using g by simp
  have tq: "tensor_queries (calls c1) = tensor_queries (calls c)"
    unfolding c1 by (rule resolver_tensor_queries)
  have ds: "data_sources (calls c1) = data_sources (calls c) @ [name e]"
    unfolding c1 by (rule resolver_data_sources)
  show ?case
  proof (cases res)
    case (Inl err)
    have "query_loop st environ rnds (e # es) c out = (Some err, c1, out)"
      using g Inl by (intro query_loop_Cons_Inl) simp
    with Cons.prems have eqs: "r = Some err" "c' = c1" "out' = out"
      by (simp_all del: query_loop.simps)
    show ?thesis
      using eqs tq ds g Inl
      by (intro exI [of _ "[]"] exI [of _ "[c]"]) simp
  next
    case (Inr k)
    define b where "b = tensor_at st c1 k"
    define c2 where "c2 = c1\<lparr>calls := calls c1 @ [TensorExists k b]\<rparr>"
    have "query_loop st environ rnds (e # es) c out =
        query_loop st environ (\<lambda>j. rnds (Suc j)) es c2 (out @ [report_line k (name e) b])"
      unfolding b_def c2_def using g Inr by (intro query_loop_Cons_Inr) simp
    with Cons.prems
    have run: "query_loop st environ (\<lambda>j. rnds (Suc j)) es c2 (out @ [report_line k (name e) b])
        = (r, c', out')"
      by (simp del: query_loop.simps)
    from Cons.IH [OF run] obtain kbs cs where
      len: "length kbs \<le> length es"
      and lcs: "length cs = Suc (length kbs)"
      and cs0: "cs ! 0 = c2"
      and rounds: "\<forall>i<length kbs.
          let res = get_field_name st environ (rnds (Suc i)) (cs ! i)
                      ''pUPhiTest'' ''U'' (PyInt 0) (PyInt 1) (Some (es ! i));
              k = fst (kbs ! i); b = snd (kbs ! i)
          in fst res = Inr k \<and> b = tensor_at st (snd res) k
             \<and> cs ! Suc i = (snd res)\<lparr>calls := calls (snd res) @ [TensorExists k b]\<rparr>"
      and outs: "out' = (out @ [report_line k (name e) b]) @
                   map (\<lambda>(e, k, b). report_line k (name e) b) (zip es kbs)"
      and tqs: "tensor_queries (calls c') = tensor_queries (calls c2) @ kbs"
      and dss: "data_sources (calls c') = data_sources (calls c2) @ map name (take (Suc (length kbs)) es)"
      and fin: "r = None \<longleftrightarrow> length kbs = length es"
      and lastc: "r = None \<longrightarrow> c' = last cs"
      and errs: "\<forall>err. r = Some err \<longrightarrow>
          get_field_name st environ (rnds (Suc (length kbs))) (last cs)
            ''pUPhiTest'' ''U'' (PyInt 0) (PyInt 1) (Some (es ! length kbs)) = (Inl err, c')"
      by blast
    have cs_ne: "cs \<noteq> []"
      using lcs by auto
    have tq2: "tensor_queries (calls c2) = tensor_queries (calls c) @ [(k, b)]"
      by (simp add: c2_def tensor_queries_append tq)
    have ds2: "data_sources (calls c2) = data_sources (calls c) @ [name e]"
      by (simp add: c2_def data_sources_append ds)
    have rounds': "\<forall>i<length ((k, b) # kbs).
          let res = get_field_name st environ (rnds i) ((c # cs) ! i)
                      ''pUPhiTest'' ''U'' (PyInt 0) (PyInt 1) (Some ((e # es) ! i));
              k' = fst (((k, b) # kbs) ! i); b' = snd (((k, b) # kbs) ! i)
          in fst res = Inr k' \<and> b' = tensor_at st (snd res) k'
             \<and> (c # cs) ! Suc i = (snd res)\<lparr>calls := calls (snd res) @ [TensorExists k' b']\<rparr>"
    proof (intro allI impI)
      fix i assume i: "i < length ((k, b) # kbs)"
      show "let res = get_field_name st environ (rnds i) ((c # cs) ! i)
                      ''pUPhiTest'' ''U'' (PyInt 0) (PyInt 1) (Some ((e # es) ! i));
              k' = fst (((k, b) # kbs) ! i); b' = snd (((k, b) # kbs) ! i)
          in fst res = Inr k' \<and> b' = tensor_at st (snd res) k'
             \<and> (c # cs) ! Suc i = (snd res)\<lparr>calls := calls (snd res) @ [TensorExists k' b']\<rparr>"
      proof (cases i)
        case 0
        with g Inr cs0 show ?thesis
          by (simp add: b_def c2_def)
      next
        case (Suc j)
        with i have "j < length kbs" by simp
        with rounds Suc show ?thesis
          by (simp add: Let_def)
      qed
    qed
    show ?thesis
      using len lcs fin outs tqs dss errs lastc rounds' cs_ne
      by (intro exI [of _ "(k, b) # kbs"] exI [of _ "c # cs"]) (simp add: tq2 ds2)
  qed
qed

lemma query_loop_example:
  "query_loop store_member0_tensor environ_set rnds_zero [member0, member1] client_fresh [] =
     (None, client_after_loop,
      [''--- {ts1_p0}.U_internal is found for member mesh-study_0? True'',
       ''--- {ts1_p0}.U_internal is found for member mesh-study_1? False''])"
  by code_simp

theorem query_loop_reports_witness:
  "query_loop store_member0_tensor environ_set rnds_zero [member0, member1] client_fresh [] =
     (None, client_after_loop,
      [''--- {ts1_p0}.U_internal is found for member mesh-study_0? True'',
       ''--- {ts1_p0}.U_internal is found for member mesh-study_1? False''])
   \<and> (\<exists>kbs. length kbs = 2
        \<and> [''--- {ts1_p0}.U_internal is found for member mesh-study_0? True'',
            ''--- {ts1_p0}.U_internal is found for member mesh-study_1? False''] =
           map (\<lambda>(e, k, b). report_line k (name e) b) (zip [member0, member1] kbs)
        \<and> tensor_queries (calls client_after_loop) = kbs)
   \<and> tensor_queries (calls client_after_loop) =
       [(''{ts1_p0}.U_internal'', True), (''{ts1_p0}.U_internal'', False)]
   \<and> data_sources (calls client_after_loop) = [''mesh-study_0'', ''mesh-study_1'']"
proof -
  have ds: "data_sources (calls client_after_loop) = [''mesh-study_0'', ''mesh-study_1'']"
    by (simp add: client_after_loop_def)
  have tq: "tensor_queries (calls client_after_loop) =
       [(''{ts1_p0}.U_internal'', True), (''{ts1_p0}.U_internal'', False)]"
    by (simp add: client_after_loop_def)
  from query_loop_reports [OF query_loop_example]
  obtain kbs where
    "(None :: error option) = None \<longleftrightarrow> length kbs = length [member0, member1]"
    and "[''--- {ts1_p0}.U_internal is found for member mesh-study_0? True'',
          ''--- {ts1_p0}.U_internal is found for member mesh-study_1? False''] =
         [] @ map (\<lambda>(e, k, b). report_line k (name e) b) (zip [member0, member1] kbs)"
    and "tensor_queries (calls client_after_loop) = tensor_queries (calls client_fresh) @ kbs"
    by blast
  then have "length kbs = 2
        \<and> [''--- {ts1_p0}.U_internal is found for member mesh-study_0? True'',
            ''--- {ts1_p0}.U_internal is found for member mesh-study_1? False''] =
           map (\<lambda>(e, k, b). report_line k (name e) b) (zip [member0, member1] kbs)
        \<and> tensor_queries (calls client_after_loop) = kbs"
    by (simp add: client_fresh_def)
  then have "\<exists>kbs. length kbs = 2
        \<and> [''--- {ts1_p0}.U_internal is found for member mesh-study_0? True'',
            ''--- {ts1_p0}.U_internal is found for member mesh-study_1? False''] =
           map (\<lambda>(e, k, b). report_line k (name e) b) (zip [member0, member1] kbs)
        \<and> tensor_queries (calls client_after_loop) = kbs"
    by (intro exI [of _ kbs])
  with query_loop_example tq ds show ?thesis
    by (intro conjI)
qed

end
